theory Spec2Isabelle
  imports Complex_Main
begin

section \<open>Values, frames and errors\<close>

text \<open>
  The repository holds two ETL pipelines over the same LinkedIn spreadsheet exports:
  \<^verbatim>\<open>EtlLinkedinPandas\<close> (src/engines/method_1/etl_linkedin_pandas.py), which keeps every
  table as an in-memory data frame, and \<^verbatim>\<open>EtlLinkedin\<close> (src/data/etl_linkedin_duckdb.py),
  which keeps every table in an in-memory DuckDB database and transforms it with SQL.
  Definitions that embed the first carry the source's names; where both classes use one
  name, the DuckDB one is suffixed \<open>_duck\<close>.

  Exceptions are values: a function that can raise returns \<open>py_error + 'a\<close>.
\<close>

datatype py_error =
    KeyError | IndexError | ValueError | TypeError | AttributeError
  | ZeroDivisionError | InvalidIndexError | BinderError | CatalogError | ParserError

text \<open>
  A calendar date is (year, month, day). A cell is a missing value (pandas NaN/NaT, SQL
  NULL), a number, a string or a date. Numbers are exact rationals: the rounding of
  IEEE doubles is not modelled.
\<close>

type_synonym date = "int \<times> nat \<times> nat"

datatype cell = Null | Num rat | Str string | Date date

text \<open>A table: its column labels in order, and its rows in order.\<close>

record frame =
  columns :: "string list"
  rows :: "cell list list"

section \<open>Schema catalog\<close>

text \<open>The sheets read per file category: \<^verbatim>\<open>category_keys\<close> of \<^verbatim>\<open>read_excel_file\<close>
  (the same dictionary in both classes), as (sheet_name, sheet_pos, skiprows).\<close>

definition category_keys :: "(string \<times> (string \<times> nat \<times> nat) list) list" where
  "category_keys =
    [(''competitor'', [(''competitor'', 0, 1)]),
     (''content'',
        [(''content_metrics'', 0, 1),
         (''content_posts'', 1, 1)]),
     (''followers'',
        [(''followers_new'', 0, 0),
         (''followers_location'', 1, 0),
         (''followers_function'', 2, 0),
         (''followers_experience'', 3, 0),
         (''followers_industry'', 4, 0),
         (''followers_company_size'', 5, 0)]),
     (''visitors'',
        [(''visitors_metrics'', 0, 0),
         (''visitors_location'', 1, 0),
         (''visitors_function'', 2, 0),
         (''visitors_experience'', 3, 0),
         (''visitors_industry'', 4, 0),
         (''visitors_company_size'', 5, 0)])]"

definition sheet_names :: "string \<Rightarrow> string list" where
  "sheet_names category =
     (case map_of category_keys category of None \<Rightarrow> [] | Some sheets \<Rightarrow> map fst sheets)"

text \<open>\<^verbatim>\<open>table_attributes\<close> of \<^verbatim>\<open>load_data_from_pandas\<close>: a Python dict of dicts, both
  in insertion order, from table name to (column name, SQL type).\<close>

definition table_attributes :: "(string \<times> (string \<times> string) list) list" where
  "table_attributes =
    [(''content_metrics'',
        [(''Date'', ''DATE''),
         (''Impressions (organic)'', ''INT''),
         (''Impressions (sponsored)'', ''INT''),
         (''Impressions (total)'', ''INT''),
         (''Unique impressions (organic)'', ''INT''),
         (''Clicks (organic)'', ''INT''),
         (''Clicks (sponsored)'', ''INT''),
         (''Clicks (total)'', ''INT''),
         (''Reactions (organic)'', ''INT''),
         (''Reactions (sponsored)'', ''INT''),
         (''Reactions (total)'', ''INT''),
         (''Comments (organic)'', ''INT''),
         (''Comments (sponsored)'', ''INT''),
         (''Comments (total)'', ''INT''),
         (''Shares (organic)'', ''INT''),
         (''Shares (sponsored)'', ''INT''),
         (''Shares (total)'', ''INT''),
         (''Engagement rate (organic)'', ''DOUBLE''),
         (''Engagement rate (sponsored)'', ''DOUBLE''),
         (''Engagement rate (total)'', ''DOUBLE'')]),
     (''content_posts'',
        [(''Post Title'', ''VARCHAR''),
         (''Post Link'', ''VARCHAR''),
         (''Post Type'', ''VARCHAR''),
         (''Campaign Name'', ''VARCHAR''),
         (''Published by'', ''VARCHAR''),
         (''Date'', ''DATE''),
         (''Campaign Start Date'', ''DATE''),
         (''Campaign End Date'', ''DATE''),
         (''Audience'', ''VARCHAR''),
         (''Impressions'', ''INT''),
         (''Views (excluding off-site video views)'', ''INT''),
         (''Off-site Views'', ''INT''),
         (''Clicks'', ''INT''),
         (''Click-Through Rate (CTR)'', ''FLOAT''),
         (''Likes'', ''INT''),
         (''Comments'', ''INT''),
         (''Shares'', ''INT''),
         (''Followers'', ''INT''),
         (''Engagement Rate'', ''FLOAT''),
         (''Content Type'', ''VARCHAR'')]),
     (''followers_new'',
        [(''Date'', ''DATE''),
         (''Followers Sponsored'', ''INT''),
         (''Followers Organic'', ''INT''),
         (''Total Followers'', ''INT'')]),
     (''followers_location'', [(''Location'', ''VARCHAR''), (''Total Followers'', ''INT'')]),
     (''followers_function'', [(''Function'', ''VARCHAR''), (''Total Followers'', ''INT'')]),
     (''followers_experience'', [(''Experience Level'', ''VARCHAR''), (''Total Followers'', ''INT'')]),
     (''followers_industry'', [(''Industry'', ''VARCHAR''), (''Total Followers'', ''INT'')]),
     (''followers_company_size'', [(''Company Size'', ''VARCHAR''), (''Total Followers'', ''INT'')]),
     (''visitors_metrics'',
        [(''Date'', ''DATE''),
         (''Page Views Overview (Desktop)'', ''INT''),
         (''Page Views Overview (Mobile Devices)'', ''INT''),
         (''Page Views Overview (Total)'', ''INT''),
         (''Unique Visitors Overview (Desktop)'', ''INT''),
         (''Unique Visitors Overview (Mobile Devices)'', ''INT''),
         (''Unique Visitors Overview (Total)'', ''INT''),
         (''Page Views Day by Day (Desktop)'', ''INT''),
         (''Page Views Day by Day (Mobile Devices)'', ''INT''),
         (''Page Views Day by Day (Total)'', ''INT''),
         (''Unique Visitors Day by Day (Desktop)'', ''INT''),
         (''Unique Visitors Day by Day (Mobile Devices)'', ''INT''),
         (''Unique Visitors Day by Day (Total)'', ''INT''),
         (''Page Views Jobs (Desktop)'', ''INT''),
         (''Page Views Jobs (Mobile Devices)'', ''INT''),
         (''Page Views Jobs (Total)'', ''INT''),
         (''Unique Visitors Jobs (Desktop)'', ''INT''),
         (''Unique Visitors Jobs (Mobile Devices)'', ''INT''),
         (''Unique Visitors Jobs (Total)'', ''INT''),
         (''Total Page Views (Desktop)'', ''INT''),
         (''Total Page Views (Mobile Devices)'', ''INT''),
         (''Total Page Views (Total)'', ''INT''),
         (''Total Unique Visitors (Desktop)'', ''INT''),
         (''Total Unique Visitors (Mobile Devices)'', ''INT''),
         (''Total Unique Visitors (Total)'', ''INT'')]),
     (''visitors_location'', [(''Location'', ''VARCHAR''), (''Total Views'', ''INT'')]),
     (''visitors_function'', [(''Function'', ''VARCHAR''), (''Total Views'', ''INT'')]),
     (''visitors_experience'', [(''Experience Level'', ''VARCHAR''), (''Total Views'', ''INT'')]),
     (''visitors_industry'', [(''Industry'', ''VARCHAR''), (''Total Views'', ''INT'')]),
     (''visitors_company_size'', [(''Company Size'', ''VARCHAR''), (''Total Views'', ''INT'')]),
     (''competitor'',
        [(''Page'', ''VARCHAR''),
         (''Total Followers'', ''INT''),
         (''New Followers'', ''INT''),
         (''Total Post Engagements'', ''FLOAT''),
         (''Total Posts'', ''INT'')])]"

text \<open>
  The lookup at the head of \<^verbatim>\<open>load_data_from_pandas\<close>:
  \<^verbatim>\<open>table_attribute = table_attributes.get(dataframe["dataframe_name"])\<close> followed by
  \<^verbatim>\<open>table_attribute.keys()\<close>. For a name that is not a key, \<^verbatim>\<open>get\<close> gives \<^verbatim>\<open>None\<close> and
  \<^verbatim>\<open>None.keys()\<close> raises AttributeError.
\<close>

definition table_attribute :: "string \<Rightarrow> py_error + (string \<times> string) list" where
  "table_attribute name =
     (case map_of table_attributes name of
        None \<Rightarrow> Inl AttributeError
      | Some attrs \<Rightarrow> Inr attrs)"

text \<open>\<^verbatim>\<open>translated_columns\<close> of \<^verbatim>\<open>translate_cols\<close> (pandas): column names only.\<close>

definition translated_columns :: "(string \<times> string list) list" where
  "translated_columns =
    [(''content_metrics'',
        [''Date'',
         ''Impressions (organic)'',
         ''Impressions (sponsored)'',
         ''Impressions (total)'',
         ''Unique impressions (organic)'',
         ''Clicks (organic)'',
         ''Clicks (sponsored)'',
         ''Clicks (total)'',
         ''Reactions (organic)'',
         ''Reactions (sponsored)'',
         ''Reactions (total)'',
         ''Comments (organic)'',
         ''Comments (sponsored)'',
         ''Comments (total)'',
         ''Shares (organic)'',
         ''Shares (sponsored)'',
         ''Shares (total)'',
         ''Engagement rate (organic)'',
         ''Engagement rate (sponsored)'',
         ''Engagement rate (total)'']),
     (''content_posts'',
        [''Post Title'',
         ''Post Link'',
         ''Post Type'',
         ''Campaign Name'',
         ''Published by'',
         ''Date'',
         ''Campaign Start Date'',
         ''Campaign End Date'',
         ''Audience'',
         ''Impressions'',
         ''Views (excluding off-site video views)'',
         ''Off-site Views'',
         ''Clicks'',
         ''Click-Through Rate (CTR)'',
         ''Likes'',
         ''Comments'',
         ''Shares'',
         ''Followers'',
         ''Engagement Rate'',
         ''Content Type'']),
     (''followers_new'',
        [''Date'', ''Followers Sponsored'', ''Followers Organic'', ''Total Followers'']),
     (''followers_location'', [''Location'', ''Total Followers'']),
     (''followers_function'', [''Function'', ''Total Followers'']),
     (''followers_experience'', [''Experience Level'', ''Total Followers'']),
     (''followers_industry'', [''Industry'', ''Total Followers'']),
     (''followers_company_size'', [''Company Size'', ''Total Followers'']),
     (''visitors_metrics'',
        [''Date'',
         ''Page Views Overview (Desktop)'',
         ''Page Views Overview (Mobile Devices)'',
         ''Page Views Overview (Total)'',
         ''Unique Visitors Overview (Desktop)'',
         ''Unique Visitors Overview (Mobile Devices)'',
         ''Unique Visitors Overview (Total)'',
         ''Page Views Day by Day (Desktop)'',
         ''Page Views Day by Day (Mobile Devices)'',
         ''Page Views Day by Day (Total)'',
         ''Unique Visitors Day by Day (Desktop)'',
         ''Unique Visitors Day by Day (Mobile Devices)'',
         ''Unique Visitors Day by Day (Total)'',
         ''Page Views Jobs (Desktop)'',
         ''Page Views Jobs (Mobile Devices)'',
         ''Page Views Jobs (Total)'',
         ''Unique Visitors Jobs (Desktop)'',
         ''Unique Visitors Jobs (Mobile Devices)'',
         ''Unique Visitors Jobs (Total)'',
         ''Total Page Views (Desktop)'',
         ''Total Page Views (Mobile Devices)'',
         ''Total Page Views (Total)'',
         ''Total Unique Visitors (Desktop)'',
         ''Total Unique Visitors (Mobile Devices)'',
         ''Total Unique Visitors (Total)'']),
     (''visitors_location'', [''Location'', ''Total Views'']),
     (''visitors_function'', [''Function'', ''Total Views'']),
     (''visitors_experience'', [''Experience Level'', ''Total Views'']),
     (''visitors_industry'', [''Industry'', ''Total Views'']),
     (''visitors_company_size'', [''Company Size'', ''Total Views'']),
     (''competitor'',
        [''Page'',
         ''Total Followers'',
         ''New Followers'',
         ''Total Post Engagements'',
         ''Total Posts''])]"

text \<open>
  \<^verbatim>\<open>translate_cols\<close>: \<^verbatim>\<open>dataframe["df"].columns = translated_columns.get(name)\<close>.
  Assigning \<^verbatim>\<open>None\<close> as the column index raises TypeError, and assigning a list whose
  length is not the frame's column count raises ValueError (length mismatch); both
  are pandas' checks on the assignment. The argument is the frame with its sheet name.
\<close>

definition translate_cols :: "string \<Rightarrow> frame \<Rightarrow> py_error + frame" where
  "translate_cols name d =
     (case map_of translated_columns name of
        None \<Rightarrow> Inl TypeError
      | Some names \<Rightarrow>
          if length names \<noteq> length (columns d) then Inl ValueError
          else Inr (d\<lparr>columns := names\<rparr>))"

text \<open>The registered table kinds, in the catalog's order.\<close>

definition table_kinds :: "string list" where
  "table_kinds = map fst table_attributes"

section \<open>Period resolver\<close>

subsection \<open>Strings and numerals\<close>

text \<open>\<^verbatim>\<open>s.split(sep)\<close> for a one-character separator: never empty, one more part than
  there are separators.\<close>

fun split_on :: "char \<Rightarrow> string \<Rightarrow> string list" where
  "split_on c [] = [[]]"
| "split_on c (x # xs) =
     (if x = c then [] # split_on c xs
      else (x # hd (split_on c xs)) # tl (split_on c xs))"

text \<open>\<^verbatim>\<open>sep.join(parts)\<close>.\<close>

fun join :: "string \<Rightarrow> string list \<Rightarrow> string" where
  "join sep [] = []"
| "join sep [p] = p"
| "join sep (p # q # ps) = p @ sep @ join sep (q # ps)"

text \<open>The position of the first occurrence (\<^verbatim>\<open>list.index\<close>); the length if there is none.\<close>

fun index_of :: "'a \<Rightarrow> 'a list \<Rightarrow> nat" where
  "index_of x [] = 0"
| "index_of x (y # ys) = (if x = y then 0 else Suc (index_of x ys))"

definition is_digit :: "char \<Rightarrow> bool" where
  "is_digit c = (c \<in> set ''0123456789'')"

definition digit_val :: "char \<Rightarrow> nat" where
  "digit_val c = index_of c ''0123456789''"

definition nat_of_digits :: "string \<Rightarrow> nat" where
  "nat_of_digits s = foldl (\<lambda>a c. 10 * a + digit_val c) 0 s"

text \<open>
  \<^verbatim>\<open>int(s)\<close> on a string of decimal digits; anything else is \<open>None\<close> (ValueError at the
  call). Python also accepts a sign, surrounding blanks and underscores between digits;
  year directories named that way are outside this model.
\<close>

definition py_int :: "string \<Rightarrow> int option" where
  "py_int s = (if s \<noteq> [] \<and> list_all is_digit s then Some (int (nat_of_digits s)) else None)"

text \<open>\<^verbatim>\<open>str(n)\<close> for a natural number, as an f-string formats it.\<close>

fun str_of_nat :: "nat \<Rightarrow> string" where
  "str_of_nat n =
     (if n < 10 then [''0123456789'' ! n]
      else str_of_nat (n div 10) @ [''0123456789'' ! (n mod 10)])"

declare str_of_nat.simps [simp del]

text \<open>Reading a \<^verbatim>\<open>year-month-day\<close> string (padded or not) back as a calendar date; used
  to state what date a computed string denotes.\<close>

definition parse_ymd :: "string \<Rightarrow> date option" where
  "parse_ymd s =
     (case split_on CHR ''-'' s of
        [a, b, c] \<Rightarrow>
          (case (py_int a, py_int b, py_int c) of
             (Some y, Some m, Some d) \<Rightarrow> Some (y, nat m, nat d)
           | _ \<Rightarrow> None)
      | _ \<Rightarrow> None)"

subsection \<open>The calendar module\<close>

text \<open>
  \<^verbatim>\<open>calendar.isleap\<close> and the day count \<^verbatim>\<open>calendar.monthrange(year, month)[1]\<close> of the
  Python standard library: \<^verbatim>\<open>mdays[month] + (month == 2 and isleap(year))\<close>, over the table
  \<^verbatim>\<open>mdays = [0, 31, 28, 31, 30, 31, 30, 31, 31, 30, 31, 30, 31]\<close>. The library raises
  IllegalMonthError outside 1..12; the callers here pass table values 1..12 only, and
  the model gives 0 there.
\<close>

definition isleap :: "int \<Rightarrow> bool" where
  "isleap year = (year mod 4 = 0 \<and> (year mod 100 \<noteq> 0 \<or> year mod 400 = 0))"

definition mdays :: "nat list" where
  "mdays = [0, 31, 28, 31, 30, 31, 30, 31, 31, 30, 31, 30, 31]"

definition monthrange_days :: "int \<Rightarrow> nat \<Rightarrow> nat" where
  "monthrange_days year month =
     (if 1 \<le> month \<and> month \<le> 12
      then mdays ! month + (if month = 2 \<and> isleap year then 1 else 0)
      else 0)"

subsection \<open>pandas: \<^verbatim>\<open>add_final_date\<close>\<close>

definition month_order_pt :: "(string \<times> nat) list" where
  "month_order_pt =
    [(''Jan'', 1), (''Fev'', 2), (''Mar'', 3), (''Abr'', 4), (''Maio'', 5), (''Jun'', 6),
     (''Jul'', 7), (''Ago'', 8), (''Set'', 9), (''Out'', 10), (''Nov'', 11), (''Dez'', 12)]"

text \<open>
  The string \<^verbatim>\<open>final_date\<close> that \<^verbatim>\<open>add_final_date\<close> computes from the extraction period
  \<^verbatim>\<open>"<year>-<month>-<i+1>"\<close>. Unpacking the split into three names raises ValueError unless
  there are exactly three parts; the month lookup raises KeyError; \<^verbatim>\<open>int(year)\<close> is
  evaluated in the \<^verbatim>\<open>period == "2"\<close> branch only.
\<close>

definition final_date :: "string \<Rightarrow> py_error + string" where
  "final_date ep =
     (case split_on CHR ''-'' ep of
        [year, month, period] \<Rightarrow>
          (case map_of month_order_pt month of
             None \<Rightarrow> Inl KeyError
           | Some m \<Rightarrow>
               if period = ''2'' then
                 (case py_int year of
                    None \<Rightarrow> Inl ValueError
                  | Some y \<Rightarrow>
                      Inr (year @ ''-'' @ str_of_nat m @ ''-'' @ str_of_nat (monthrange_days y m)))
               else Inr (year @ ''-'' @ str_of_nat m @ ''-'' @ str_of_nat 15))
      | _ \<Rightarrow> Inl ValueError)"

text \<open>\<^verbatim>\<open>df[name] = value\<close> with a scalar: every row gets the value, in the column of that
  label if there is one, else in a new last column.\<close>

definition set_column :: "string \<Rightarrow> cell list \<Rightarrow> frame \<Rightarrow> frame" where
  "set_column name vals d =
     (if name \<in> set (columns d)
      then d\<lparr>rows := map (\<lambda>(r, v). r[index_of name (columns d) := v]) (zip (rows d) vals)\<rparr>
      else d\<lparr>columns := columns d @ [name],
             rows := map (\<lambda>(r, v). r @ [v]) (zip (rows d) vals)\<rparr>)"

definition set_column_scalar :: "string \<Rightarrow> cell \<Rightarrow> frame \<Rightarrow> frame" where
  "set_column_scalar name v d = set_column name (replicate (length (rows d)) v) d"

definition add_final_date :: "string \<Rightarrow> frame \<Rightarrow> py_error + frame" where
  "add_final_date ep d =
     (case final_date ep of
        Inl e \<Rightarrow> Inl e
      | Inr s \<Rightarrow> Inr (set_column_scalar ''Extraction Range'' (Str s) d))"

text \<open>
  \<^verbatim>\<open>get_raw_files\<close> names the period of the file at position \<open>i\<close> of its month directory
  \<^verbatim>\<open>f"{year}-{month}-{i+1}"\<close>, year and month being directory names; \<open>seq\<close> is \<open>i + 1\<close>.
  \<open>extraction_range\<close> is the date that the resulting \<^verbatim>\<open>final_date\<close> string denotes.
\<close>

definition period_label :: "string \<Rightarrow> string \<Rightarrow> nat \<Rightarrow> string" where
  "period_label year month seq = year @ ''-'' @ month @ ''-'' @ str_of_nat seq"

definition extraction_range :: "string \<Rightarrow> string \<Rightarrow> nat \<Rightarrow> py_error + date option" where
  "extraction_range year month seq =
     (case final_date (period_label year month seq) of
        Inl e \<Rightarrow> Inl e
      | Inr s \<Rightarrow> Inr (parse_ymd s))"

subsection \<open>DuckDB: \<^verbatim>\<open>add_final_date\<close>\<close>

definition map_months_period :: "(string \<times> string) list" where
  "map_months_period =
    [(''2023_Jan_1'', ''2023-01-15''),
     (''2023_Jan_2'', ''2023-01-31''),
     (''2023_Fev_1'', ''2023-02-15''),
     (''2023_Fev_2'', ''2023-02-28''),
     (''2023_Mar_1'', ''2023-03-15''),
     (''2023_Mar_2'', ''2023-03-31''),
     (''2023_Abr_1'', ''2023-04-15''),
     (''2023_Abr_2'', ''2023-04-30''),
     (''2023_Mai_1'', ''2023-05-15''),
     (''2023_Mai_2'', ''2023-05-31''),
     (''2023_Jun_1'', ''2023-06-15''),
     (''2023_Jun_2'', ''2023-06-30''),
     (''2023_Jul_1'', ''2023-07-15''),
     (''2023_Jul_2'', ''2023-07-31''),
     (''2023_Ago_1'', ''2023-08-15''),
     (''2023_Ago_2'', ''2023-08-31''),
     (''2023_Set_1'', ''2023-09-15''),
     (''2023_Set_2'', ''2023-09-30''),
     (''2023_Out_1'', ''2023-10-15''),
     (''2023_Out_2'', ''2023-10-31''),
     (''2023_Nov_1'', ''2023-11-15''),
     (''2023_Nov_2'', ''2023-11-30''),
     (''2023_Dez_1'', ''2023-12-15''),
     (''2023_Dez_2'', ''2023-12-31''),
     (''2024_Jan_1'', ''2024-01-15''),
     (''2024_Jan_2'', ''2024-01-31''),
     (''2024_Fev_1'', ''2024-02-15''),
     (''2024_Fev_2'', ''2024-02-29''),
     (''2024_Mar_1'', ''2024-03-15''),
     (''2024_Mar_2'', ''2024-03-31''),
     (''2024_Abr_1'', ''2024-04-15''),
     (''2024_Abr_2'', ''2024-04-30''),
     (''2024_Mai_1'', ''2024-05-15''),
     (''2024_Mai_2'', ''2024-05-31''),
     (''2024_Jun_1'', ''2024-06-15''),
     (''2024_Jun_2'', ''2024-06-30''),
     (''2024_Jul_1'', ''2024-07-15''),
     (''2024_Jul_2'', ''2024-07-31''),
     (''2024_Ago_1'', ''2024-08-15''),
     (''2024_Ago_2'', ''2024-08-31''),
     (''2024_Set_1'', ''2024-09-15''),
     (''2024_Set_2'', ''2024-09-30''),
     (''2024_Out_1'', ''2024-10-15''),
     (''2024_Out_2'', ''2024-10-31''),
     (''2024_Nov_1'', ''2024-11-15''),
     (''2024_Nov_2'', ''2024-11-30''),
     (''2024_Dez_1'', ''2024-12-15''),
     (''2024_Dez_2'', ''2024-12-31'')]"

text \<open>\<^verbatim>\<open>final_date = map_months_period[table["extraction_period"]]\<close>, the period being
  \<^verbatim>\<open>"<year>_<month>_<i+1>"\<close>; a missing key raises KeyError.\<close>

definition final_date_duck :: "string \<Rightarrow> py_error + string" where
  "final_date_duck ep =
     (case map_of map_months_period ep of
        None \<Rightarrow> Inl KeyError
      | Some s \<Rightarrow> Inr s)"

text \<open>The DuckDB class names the period \<^verbatim>\<open>f"{year}_{month}_{i+1}"\<close>.\<close>

definition period_label_duck :: "string \<Rightarrow> string \<Rightarrow> nat \<Rightarrow> string" where
  "period_label_duck year month seq = year @ ''_'' @ month @ ''_'' @ str_of_nat seq"

definition extraction_range_duck :: "string \<Rightarrow> string \<Rightarrow> nat \<Rightarrow> py_error + date option" where
  "extraction_range_duck year month seq =
     (case final_date_duck (period_label_duck year month seq) of
        Inl e \<Rightarrow> Inl e
      | Inr s \<Rightarrow> Inr (parse_ymd s))"



section \<open>Hierarchical aggregator\<close>

subsection \<open>The grouping loop\<close>

text \<open>
  All four aggregation functions start with the same loop over their input:
  \<^verbatim>\<open>if key not in d: d[key] = {...}\<close> followed by an append to a list inside \<^verbatim>\<open>d[key]\<close>.
  A Python dict keeps its keys in insertion order, so \<open>d\<close> is an association list with
  distinct keys: \<open>init\<close> builds the entry of a new key, \<open>add\<close> is the append.
\<close>

definition dict_update :: "('g \<Rightarrow> 'g) \<Rightarrow> 'k \<Rightarrow> ('k \<times> 'g) list \<Rightarrow> ('k \<times> 'g) list" where
  "dict_update f k d = map (\<lambda>(k', v). if k' = k then (k', f v) else (k', v)) d"

fun group_into ::
  "('a \<Rightarrow> 'k) \<Rightarrow> ('a \<Rightarrow> 'g) \<Rightarrow> ('a \<Rightarrow> 'g \<Rightarrow> 'g) \<Rightarrow> 'a list \<Rightarrow> ('k \<times> 'g) list \<Rightarrow> ('k \<times> 'g) list"
where
  "group_into key init add [] d = d"
| "group_into key init add (x # xs) d =
     group_into key init add xs
       (dict_update (add x) (key x)
          (if key x \<in> fst ` set d then d else d @ [(key x, init x)]))"

subsection \<open>pandas: \<^verbatim>\<open>pd.concat\<close>\<close>

text \<open>
  \<^verbatim>\<open>pd.concat(dfs)\<close> with its defaults (\<^verbatim>\<open>axis=0, join="outer", sort=False\<close>), a library
  function: the rows of the frames one after the other. When the frames do not all have
  the same column labels, the result has the union of the labels in order of first
  appearance, and a row gets a missing value in each column its frame lacks; aligning
  a frame with a repeated label raises InvalidIndexError. An empty list raises
  ValueError. Row labels (the index) are not modelled.
\<close>

definition cell_at :: "cell list \<Rightarrow> nat \<Rightarrow> cell" where
  "cell_at r i = (if i < length r then r ! i else Null)"

definition reindex_row :: "string list \<Rightarrow> string list \<Rightarrow> cell list \<Rightarrow> cell list" where
  "reindex_row new_cols old_cols r =
     map (\<lambda>c. if c \<in> set old_cols then cell_at r (index_of c old_cols) else Null) new_cols"

definition union_labels :: "string list list \<Rightarrow> string list" where
  "union_labels ls = rev (remdups (rev (concat ls)))"

definition pd_concat :: "frame list \<Rightarrow> py_error + frame" where
  "pd_concat fs =
     (if fs = [] then Inl ValueError
      else if list_all (\<lambda>f. columns f = columns (hd fs)) fs
      then Inr \<lparr>columns = columns (hd fs), rows = concat (map rows fs)\<rparr>
      else if list_ex (\<lambda>f. \<not> distinct (columns f)) fs then Inl InvalidIndexError
      else
        let cols = union_labels (map columns fs) in
        Inr \<lparr>columns = cols,
             rows = concat (map (\<lambda>f. map (reindex_row cols (columns f)) (rows f)) fs)\<rparr>)"

subsection \<open>pandas: monthly and category aggregation\<close>

text \<open>One entry of \<^verbatim>\<open>data\<close>, as \<^verbatim>\<open>read_excel_file\<close> builds it.\<close>

record dataframe =
  dataframe_name :: string
  dir :: "string list"
  extraction_period :: string
  df :: frame

text \<open>A value of \<^verbatim>\<open>grouped_data_month\<close> and \<^verbatim>\<open>grouped_data_category\<close>, before and after
  the key \<^verbatim>\<open>"concatenated_df"\<close> is set.\<close>

record grouped =
  category :: string
  export_dir :: string
  dfs :: "frame list"

record concatenated = grouped +
  concatenated_df :: frame

text \<open>\<^verbatim>\<open>os.path.join\<close> on relative components.\<close>

definition path_join :: "string list \<Rightarrow> string" where
  "path_join parts = join ''/'' parts"


text \<open>The second loop of both functions: \<^verbatim>\<open>pd.concat\<close> of each group's list, in key order;
  the first exception ends the call.\<close>

fun concat_groups :: "(string \<times> grouped) list \<Rightarrow> py_error + (string \<times> concatenated) list" where
  "concat_groups [] = Inr []"
| "concat_groups ((k, g) # rest) =
     (case pd_concat (dfs g) of
        Inl e \<Rightarrow> Inl e
      | Inr c \<Rightarrow>
          (case concat_groups rest of
             Inl e \<Rightarrow> Inl e
           | Inr r \<Rightarrow>
               Inr ((k, \<lparr>category = category g, export_dir = export_dir g, dfs = dfs g,
                         concatenated_df = c\<rparr>) # r)))"


text \<open>\<^verbatim>\<open>concatenate_category_dataframes\<close> takes the dict that the monthly function returns;
  its loop variable \<^verbatim>\<open>dataframe\<close> is a value of that dict.\<close>

definition concatenate_category_dataframes ::
  "string \<Rightarrow> (string \<times> concatenated) list \<Rightarrow> py_error + (string \<times> concatenated) list" where
  "concatenate_category_dataframes clean_directory data =
     concat_groups
       (group_into category
          (\<lambda>m. \<lparr>category = category m,
                export_dir = path_join [clean_directory, ''concatenated_dataframes''],
                dfs = []\<rparr>)
          (\<lambda>m g. g\<lparr>dfs := dfs g @ [concatenated_df m]\<rparr>)
          (map snd data) [])"

subsection \<open>DuckDB: the database and \<^verbatim>\<open>UNION ALL\<close>\<close>

text \<open>
  The connection \<^verbatim>\<open>self.con\<close> is a store from table name to table. \<^verbatim>\<open>SELECT * FROM "t"\<close>
  fails with a catalog error when there is no table \<open>t\<close>. \<^verbatim>\<open>a UNION ALL b\<close> fails in the
  binder when the two sides differ in their number of columns; otherwise the result
  takes the left side's column names, and its rows are those of \<open>a\<close> followed by those of
  \<open>b\<close> (the order in which DuckDB evaluates the branches of a union that nothing
  reorders). A chain of unions associates to the left. Column types are not modelled.
\<close>

type_synonym db = "string \<rightharpoonup> frame"

definition select_all :: "db \<Rightarrow> string \<Rightarrow> py_error + frame" where
  "select_all con name = (case con name of None \<Rightarrow> Inl CatalogError | Some f \<Rightarrow> Inr f)"

fun union_onto :: "db \<Rightarrow> frame \<Rightarrow> string list \<Rightarrow> py_error + frame" where
  "union_onto con acc [] = Inr acc"
| "union_onto con acc (n # ns) =
     (case select_all con n of
        Inl e \<Rightarrow> Inl e
      | Inr g \<Rightarrow>
          if length (columns acc) \<noteq> length (columns g) then Inl BinderError
          else union_onto con \<lparr>columns = columns acc, rows = rows acc @ rows g\<rparr> ns)"

text \<open>The query \<^verbatim>\<open>SELECT * FROM "n1" UNION ALL SELECT * FROM "n2" ...\<close>; with no table at all
  the statement \<^verbatim>\<open>CREATE OR REPLACE TABLE "t" AS\<close> has no query and does not parse.\<close>

definition union_all :: "db \<Rightarrow> string list \<Rightarrow> py_error + frame" where
  "union_all con names =
     (case names of
        [] \<Rightarrow> Inl ParserError
      | n # ns \<Rightarrow>
          (case select_all con n of Inl e \<Rightarrow> Inl e | Inr f \<Rightarrow> union_onto con f ns))"

subsection \<open>DuckDB: monthly and category aggregation\<close>

text \<open>The \<^verbatim>\<open>table_dict\<close> of \<^verbatim>\<open>load_data_from_pandas\<close>, one per table.\<close>

record table_dict =
  dataframe_name_duck :: string
  extraction_period_duck :: string
  db_table_name :: string
  export_dir_duck :: string

text \<open>A value of \<^verbatim>\<open>monthly_data\<close>.\<close>

record grouped_duck =
  category_duck :: string
  export_dir_month :: string
  tables :: "string list"

text \<open>A value of \<^verbatim>\<open>grouped_data_category\<close> of \<^verbatim>\<open>concatenate_category_tables\<close>.\<close>

record grouped_category_duck =
  export_dir_category :: string
  tables_category :: "string list"

definition category_year_month :: "table_dict \<Rightarrow> string" where
  "category_year_month t =
     dataframe_name_duck t @ ''_'' @
       join ''_'' (take 2 (split_on CHR ''_'' (extraction_period_duck t)))"

text \<open>
  The second loop of \<^verbatim>\<open>concatenate_monthly_tables\<close>: \<^verbatim>\<open>grouped_data["tables"][0]\<close> and
  \<^verbatim>\<open>[1]\<close> (IndexError on a shorter list; further tables are not read), then
  \<^verbatim>\<open>CREATE OR REPLACE TABLE "<key>" AS SELECT * FROM "<table_1>" UNION ALL SELECT * FROM "<table_2>"\<close>.
\<close>

fun create_monthly :: "db \<Rightarrow> (string \<times> grouped_duck) list \<Rightarrow> py_error + db" where
  "create_monthly con [] = Inr con"
| "create_monthly con ((table_name, g) # rest) =
     (case tables g of
        table_1 # table_2 # _ \<Rightarrow>
          (case union_all con [table_1, table_2] of
             Inl e \<Rightarrow> Inl e
           | Inr f \<Rightarrow> create_monthly (con(table_name \<mapsto> f)) rest)
      | _ \<Rightarrow> Inl IndexError)"

definition monthly_data :: "table_dict list \<Rightarrow> (string \<times> grouped_duck) list" where
  "monthly_data ts =
     group_into category_year_month
       (\<lambda>t. \<lparr>category_duck = dataframe_name_duck t,
             export_dir_month = export_dir_duck t,
             tables = []\<rparr>)
       (\<lambda>t g. g\<lparr>tables := tables g @ [db_table_name t]\<rparr>)
       ts []"

text \<open>The function returns \<^verbatim>\<open>monthly_data\<close>; the tables it created are in the connection.\<close>

definition concatenate_monthly_tables ::
  "db \<Rightarrow> table_dict list \<Rightarrow> py_error + db \<times> (string \<times> grouped_duck) list" where
  "concatenate_monthly_tables con ts =
     (case create_monthly con (monthly_data ts) of
        Inl e \<Rightarrow> Inl e
      | Inr con' \<Rightarrow> Inr (con', monthly_data ts))"

text \<open>
  \<^verbatim>\<open>re.sub(r"(clean)[\\/].*", r"\1/concatenated_dataframes", export_dir)\<close> on a path of one
  line: the text from the first \<^verbatim>\<open>clean/\<close> or \<^verbatim>\<open>clean\\<close> on is replaced.
\<close>

fun concatenated_dir :: "string \<Rightarrow> string" where
  "concatenated_dir [] = []"
| "concatenated_dir (c # cs) =
     (if take 6 (c # cs) = ''clean/'' \<or> take 6 (c # cs) = ''clean'' @ [CHR 0x5C]
      then ''clean/concatenated_dataframes''
      else c # concatenated_dir cs)"

text \<open>The second loop of \<^verbatim>\<open>concatenate_category_tables\<close>: one union over all tables of the
  category, in list order. (\<^verbatim>\<open>rstrip(" UNION ALL ")\<close> strips the trailing separator and
  stops at the closing quote of the last table name.)\<close>

fun create_category :: "db \<Rightarrow> (string \<times> grouped_category_duck) list \<Rightarrow> py_error + db" where
  "create_category con [] = Inr con"
| "create_category con ((table_name, g) # rest) =
     (case union_all con (tables_category g) of
        Inl e \<Rightarrow> Inl e
      | Inr f \<Rightarrow> create_category (con(table_name \<mapsto> f)) rest)"

definition grouped_data_category ::
  "(string \<times> grouped_duck) list \<Rightarrow> (string \<times> grouped_category_duck) list" where
  "grouped_data_category md =
     group_into (\<lambda>(k, g). category_duck g)
       (\<lambda>(k, g). \<lparr>export_dir_category = concatenated_dir (export_dir_month g),
                  tables_category = []\<rparr>)
       (\<lambda>(k, g) c. c\<lparr>tables_category := tables_category c @ [k]\<rparr>)
       md []"

definition concatenate_category_tables ::
  "db \<Rightarrow> (string \<times> grouped_duck) list \<Rightarrow> py_error + db \<times> (string \<times> grouped_category_duck) list"
where
  "concatenate_category_tables con md =
     (case create_category con (grouped_data_category md) of
        Inl e \<Rightarrow> Inl e
      | Inr con' \<Rightarrow> Inr (con', grouped_data_category md))"

subsection \<open>DuckDB: when the aggregation statements succeed\<close>

text \<open>
  What the SQL of one month group needs in order to run: two tables at least, the first
  two present in the database, with the same number of columns. What the SQL of one
  category needs: one table at least, all present, all with as many columns as the first.
\<close>

definition month_group_ok :: "db \<Rightarrow> grouped_duck \<Rightarrow> bool" where
  "month_group_ok con g =
     (case tables g of
        a # b # _ \<Rightarrow>
          (case (con a, con b) of
             (Some fa, Some fb) \<Rightarrow> length (columns fa) = length (columns fb)
           | _ \<Rightarrow> False)
      | _ \<Rightarrow> False)"

definition category_group_ok :: "db \<Rightarrow> grouped_category_duck \<Rightarrow> bool" where
  "category_group_ok con g =
     (case tables_category g of
        [] \<Rightarrow> False
      | n # ns \<Rightarrow>
          (case con n of
             None \<Rightarrow> False
           | Some f \<Rightarrow>
               list_all (\<lambda>m. case con m of
                                None \<Rightarrow> False
                              | Some h \<Rightarrow> length (columns h) = length (columns f)) ns))"

text \<open>
  The tables that an aggregation creates are named by its keys. \<open>month_names_free\<close> says
  that no month key is also the name of a table that a month group reads, so that
  creating the table of one month does not replace the input of another; likewise
  \<open>category_names_free\<close> for the category keys and the monthly tables. (With the names
  that the pipeline builds, a month key is \<^verbatim>\<open><kind>_<year>_<month>\<close>, a table read is
  \<^verbatim>\<open><kind>_<year>_<month>_<i+1>\<close> and a category key is \<^verbatim>\<open><kind>\<close>.)
\<close>

definition month_names_free :: "table_dict list \<Rightarrow> bool" where
  "month_names_free ts =
     list_all (\<lambda>(k, g). list_all (\<lambda>n. n \<notin> set (map fst (monthly_data ts))) (take 2 (tables g)))
       (monthly_data ts)"


definition category_names_free :: "(string \<times> grouped_duck) list \<Rightarrow> bool" where
  "category_names_free md =
     list_all (\<lambda>(k, g). list_all (\<lambda>n. n \<notin> set (map fst (grouped_data_category md)))
                          (tables_category g))
       (grouped_data_category md)"

definition categories_complete :: "db \<Rightarrow> (string \<times> grouped_duck) list \<Rightarrow> bool" where
  "categories_complete con md =
     (category_names_free md
      \<and> list_all (\<lambda>(k, g). category_group_ok con g) (grouped_data_category md))"

section \<open>File discovery\<close>

text \<open>
  \<^verbatim>\<open>get_raw_files\<close> walks \<^verbatim>\<open>raw_directory/<category>/<year>/<month>/\<close> with three nested
  loops over \<^verbatim>\<open>os.listdir\<close> and numbers the files of each month directory with
  \<^verbatim>\<open>enumerate\<close>. The directory tree is an input: each level is the list that
  \<^verbatim>\<open>os.listdir\<close> returns there, in the order in which it returns it.
\<close>

type_synonym tree = "(string \<times> (string \<times> (string \<times> string list) list) list) list"

text \<open>\<^verbatim>\<open>sub in s\<close> on strings.\<close>

fun contains :: "string \<Rightarrow> string \<Rightarrow> bool" where
  "contains sub [] = (sub = [])"
| "contains sub (c # cs) = (take (length sub) (c # cs) = sub \<or> contains sub cs)"

text \<open>\<^verbatim>\<open>detect_file_category\<close>; \<open>None\<close> is the source's \<^verbatim>\<open>return 0\<close>.\<close>

definition detect_file_category :: "string \<Rightarrow> string option" where
  "detect_file_category file =
     (if contains ''competitor'' file then Some ''competitor''
      else if contains ''content'' file then Some ''content''
      else if contains ''followers'' file then Some ''followers''
      else if contains ''visitors'' file then Some ''visitors''
      else None)"

text \<open>The month directories in the order in which the three loops reach them, each with
  its listing.\<close>

definition month_dirs :: "tree \<Rightarrow> (string \<times> string \<times> string \<times> string list) list" where
  "month_dirs t =
     [(cat_dir, year, month, monthly_files).
        (cat_dir, years) \<leftarrow> t, (year, months) \<leftarrow> years, (month, monthly_files) \<leftarrow> months]"

text \<open>
  An entry of \<^verbatim>\<open>extraction_files\<close> is (category, file_path, dir, extraction_period). An
  empty month directory contributes nothing, with or without the \<^verbatim>\<open>continue\<close>.
\<close>

definition get_raw_files ::
  "string \<Rightarrow> tree \<Rightarrow> (string option \<times> string \<times> string list \<times> string) list" where
  "get_raw_files raw_directory t =
     [(detect_file_category file,
       path_join [raw_directory, cat_dir, year, month, file],
       [cat_dir, year, month],
       period_label year month (i + 1)).
        (cat_dir, year, month, monthly_files) \<leftarrow> month_dirs t,
        (i, file) \<leftarrow> enumerate 0 monthly_files]"

text \<open>
  \<^verbatim>\<open>read_excel_file\<close>: one entry per sheet of the file's category. \<^verbatim>\<open>category_keys[0]\<close>, for
  a file whose name no category matches, raises KeyError. \<^verbatim>\<open>pd.read_excel\<close> is the
  spreadsheet reader, a parameter here: the frame of (file path, sheet position,
  skipped rows).
\<close>

definition read_excel_file ::
  "(string \<Rightarrow> nat \<Rightarrow> nat \<Rightarrow> frame) \<Rightarrow> string option \<times> string \<times> string list \<times> string
     \<Rightarrow> py_error + dataframe list" where
  "read_excel_file read_excel file =
     (case file of (file_category, file_path, file_dir, period) \<Rightarrow>
        (case file_category of
           None \<Rightarrow> Inl KeyError
         | Some c \<Rightarrow>
             (case map_of category_keys c of
                None \<Rightarrow> Inl KeyError
              | Some sheets_to_read \<Rightarrow>
                  Inr (map (\<lambda>(sheet_name, sheet_pos, skiprows).
                              \<lparr>dataframe_name = sheet_name, dir = file_dir,
                               extraction_period = period,
                               df = read_excel file_path sheet_pos skiprows\<rparr>)
                         sheets_to_read))))"

text \<open>\<^verbatim>\<open>[obj for file in files for obj in f(file)]\<close>, where \<open>f\<close> may raise.\<close>

fun collect :: "('a \<Rightarrow> py_error + 'b list) \<Rightarrow> 'a list \<Rightarrow> py_error + 'b list" where
  "collect f [] = Inr []"
| "collect f (x # xs) =
     (case f x of
        Inl e \<Rightarrow> Inl e
      | Inr ys \<Rightarrow> (case collect f xs of Inl e \<Rightarrow> Inl e | Inr zs \<Rightarrow> Inr (ys @ zs)))"

definition extract_data ::
  "(string \<Rightarrow> nat \<Rightarrow> nat \<Rightarrow> frame) \<Rightarrow> string \<Rightarrow> tree \<Rightarrow> py_error + dataframe list" where
  "extract_data read_excel raw_directory t =
     collect (read_excel_file read_excel) (get_raw_files raw_directory t)"

subsection \<open>DuckDB\<close>

text \<open>The DuckDB class keeps the month path as \<^verbatim>\<open>dir\<close> and joins the period with \<^verbatim>\<open>_\<close>.\<close>

definition get_raw_files_duck ::
  "string \<Rightarrow> tree \<Rightarrow> (string option \<times> string \<times> string \<times> string) list" where
  "get_raw_files_duck raw_directory t =
     [(detect_file_category file,
       path_join [raw_directory, cat_dir, year, month, file],
       path_join [raw_directory, cat_dir, year, month],
       period_label_duck year month (i + 1)).
        (cat_dir, year, month, monthly_files) \<leftarrow> month_dirs t,
        (i, file) \<leftarrow> enumerate 0 monthly_files]"

text \<open>\<^verbatim>\<open>s.replace(old, new)\<close> for a non-empty \<open>old\<close>: every occurrence, left to right.\<close>

function str_replace :: "string \<Rightarrow> string \<Rightarrow> string \<Rightarrow> string" where
  "str_replace old new [] = []"
| "str_replace old new (c # cs) =
     (if old \<noteq> [] \<and> take (length old) (c # cs) = old
      then new @ str_replace old new (drop (length old) (c # cs))
      else c # str_replace old new cs)"
  by pat_completeness auto
termination
  by (relation "measure (\<lambda>(old, new, s). length s)") auto

text \<open>
  The \<^verbatim>\<open>table_dict\<close> that \<^verbatim>\<open>load_data_from_pandas\<close> returns for the sheet \<open>sheet_name\<close> of
  a file: the table is named \<^verbatim>\<open>f"{dataframe_name}_{extraction_period}"\<close>.
\<close>

definition table_dict_of :: "string \<Rightarrow> string \<Rightarrow> string \<Rightarrow> table_dict" where
  "table_dict_of sheet_name file_dir period =
     \<lparr>dataframe_name_duck = sheet_name,
      extraction_period_duck = period,
      db_table_name = sheet_name @ ''_'' @ period,
      export_dir_duck = str_replace ''raw'' ''clean'' file_dir\<rparr>"

text \<open>
  The list \<^verbatim>\<open>tables\<close> that \<^verbatim>\<open>convert_pandas_to_duck(extract_data())\<close> returns: one
  \<^verbatim>\<open>table_dict\<close> per sheet of each file, in file order. What the loads do to the
  connection is not part of this list; the statements below take the connection as it
  is when aggregation starts.
\<close>

definition convert_pandas_to_duck :: "string \<Rightarrow> tree \<Rightarrow> py_error + table_dict list" where
  "convert_pandas_to_duck raw_directory t =
     collect
       (\<lambda>(file_category, file_path, file_dir, period).
          case file_category of
            None \<Rightarrow> Inl KeyError
          | Some c \<Rightarrow>
              (case map_of category_keys c of
                 None \<Rightarrow> Inl KeyError
               | Some sheets_to_read \<Rightarrow>
                   Inr (map (\<lambda>(sheet_name, sheet_pos, skiprows).
                               table_dict_of sheet_name file_dir period)
                          sheets_to_read)))
       (get_raw_files_duck raw_directory t)"

subsection \<open>Layouts\<close>

text \<open>
  The sheet \<open>kind\<close> of a file, as (position, skipped rows), if the file's category has it.
  A name is plain when it contains neither separator of the period labels and keys. In
  a tree with plain year and month names, \<open>only_month_dir\<close> says of a list of month
  directories that none of them is a directory of year \<open>y\<close> and month \<open>m\<close> holding a file
  with a sheet \<open>kind\<close>.
\<close>

definition sheet_of :: "string \<Rightarrow> string \<Rightarrow> (nat \<times> nat) option" where
  "sheet_of file kind =
     (case detect_file_category file of
        None \<Rightarrow> None
      | Some c \<Rightarrow> (case map_of category_keys c of None \<Rightarrow> None | Some sheets \<Rightarrow> map_of sheets kind))"

definition plain :: "string \<Rightarrow> bool" where
  "plain s = (CHR ''-'' \<notin> set s \<and> CHR ''_'' \<notin> set s)"

definition plain_tree :: "tree \<Rightarrow> bool" where
  "plain_tree t = list_all (\<lambda>(cat_dir, year, month, files). plain year \<and> plain month) (month_dirs t)"

definition only_month_dir ::
  "string \<Rightarrow> string \<Rightarrow> string \<Rightarrow> (string \<times> string \<times> string \<times> string list) list \<Rightarrow> bool" where
  "only_month_dir kind y m others =
     list_all (\<lambda>(cat_dir, year, month, files).
                 (year, month) = (y, m) \<longrightarrow> list_all (\<lambda>file. sheet_of file kind = None) files)
       others"

section \<open>Example tables\<close>



definition ex_narrow :: frame where
  "ex_narrow = \<lparr>columns = [''Page''], rows = [[Str ''z'']]\<rparr>"






definition ex_fev1 :: dataframe where
  "ex_fev1 = \<lparr>dataframe_name = ''competitor'', dir = [''competitor'', ''2023'', ''Fev''],
      extraction_period = ''2023-Fev-1'', df = ex_narrow\<rparr>"

definition ex_months :: "(string \<times> concatenated) list" where
  "ex_months =
     [(''2023_Fev_competitor'',
       \<lparr>category = ''competitor'', export_dir = ''clean/competitor/2023/Fev'', dfs = [],
        concatenated_df = \<lparr>columns = [''Page'', ''Extraction Range''],
          rows = [[Str ''a'', Date (2023, 2, 15)], [Str ''a'', Date (2023, 2, 28)]]\<rparr>\<rparr>),
      (''2023_Jan_competitor'',
       \<lparr>category = ''competitor'', export_dir = ''clean/competitor/2023/Jan'', dfs = [],
        concatenated_df = \<lparr>columns = [''Page'', ''Extraction Range''],
          rows = [[Str ''a'', Date (2023, 1, 15)], [Str ''a'', Date (2023, 1, 31)]]\<rparr>\<rparr>)]"

definition ex_months_duck :: "(string \<times> grouped_duck) list" where
  "ex_months_duck =
     [(''competitor_2023_Fev'',
       \<lparr>category_duck = ''competitor'',
        export_dir_month = ''data/linkedin/clean/competitor/2023/Fev'',
        tables = [''competitor_2023_Fev_1'', ''competitor_2023_Fev_2'']\<rparr>),
      (''competitor_2023_Jan'',
       \<lparr>category_duck = ''competitor'',
        export_dir_month = ''data/linkedin/clean/competitor/2023/Jan'',
        tables = [''competitor_2023_Jan_1'', ''competitor_2023_Jan_2'']\<rparr>)]"

definition ex_con_months :: db where
  "ex_con_months =
     [''competitor_2023_Fev'' \<mapsto> \<lparr>columns = [''Page'', ''Extraction Range''],
          rows = [[Str ''a'', Date (2023, 2, 15)], [Str ''a'', Date (2023, 2, 28)]]\<rparr>,
      ''competitor_2023_Jan'' \<mapsto> \<lparr>columns = [''Page'', ''Extraction Range''],
          rows = [[Str ''a'', Date (2023, 1, 15)], [Str ''a'', Date (2023, 1, 31)]]\<rparr>]"

section \<open>Catalog facts\<close>

lemma table_kinds_eq:
  "table_kinds =
     [''content_metrics'', ''content_posts'', ''followers_new'', ''followers_location'',
      ''followers_function'', ''followers_experience'', ''followers_industry'',
      ''followers_company_size'', ''visitors_metrics'', ''visitors_location'',
      ''visitors_function'', ''visitors_experience'', ''visitors_industry'',
      ''visitors_company_size'', ''competitor'']"
  by (simp add: table_kinds_def table_attributes_def)

lemma table_kinds_distinct: "distinct table_kinds"
  unfolding table_kinds_eq by simp

lemma table_attribute_registered:
  assumes "(name, attrs) \<in> set table_attributes"
  shows "table_attribute name = Inr attrs"
proof -
  have "distinct (map fst table_attributes)"
    using table_kinds_distinct by (simp add: table_kinds_def)
  then have "map_of table_attributes name = Some attrs"
    using assms by (rule map_of_is_SomeI)
  then show ?thesis by (simp add: table_attribute_def)
qed

lemma table_attribute_unregistered:
  assumes "name \<notin> set table_kinds"
  shows "table_attribute name = Inl AttributeError"
proof -
  have "map_of table_attributes name = None"
    using assms by (simp add: table_kinds_def map_of_eq_None_iff)
  then show ?thesis by (simp add: table_attribute_def)
qed

lemma translated_columns_names:
  "translated_columns = map (\<lambda>(name, attrs). (name, map fst attrs)) table_attributes"
  by (simp add: translated_columns_def table_attributes_def)

text \<open>
  \<^bold>\<open>Claim C5\<close> (as amended). The catalog registers exactly 15 table kinds, not 16: one for
  the category competitor, two for content, six for followers and six for visitors, and
  these are exactly the sheets read per category. For every registered kind the DuckDB
  lookup returns its ordered list of (column name, SQL type) pairs, and the pandas table
  holds the same column names in the same order. For a name that is not registered the
  lookup finds nothing and the caller fails: with AttributeError in
  \<^verbatim>\<open>load_data_from_pandas\<close>, with TypeError in \<^verbatim>\<open>translate_cols\<close>.
\<close>

theorem schema_catalog_kinds:
  "length table_attributes = 15
   \<and> distinct (map fst table_attributes)
   \<and> map (\<lambda>c. length (sheet_names c)) [''competitor'', ''content'', ''followers'', ''visitors'']
        = [1, 2, 6, 6]
   \<and> map fst category_keys = [''competitor'', ''content'', ''followers'', ''visitors'']
   \<and> set (concat (map sheet_names (map fst category_keys))) = set table_kinds
   \<and> ((name, attrs) \<in> set table_attributes \<longrightarrow>
         table_attribute name = Inr attrs
         \<and> map_of translated_columns name = Some (map fst attrs))
   \<and> (name \<notin> set table_kinds \<longrightarrow>
         table_attribute name = Inl AttributeError \<and> translate_cols name d = Inl TypeError)"
proof -
  have d: "distinct (map fst table_attributes)"
    using table_kinds_distinct by (simp add: table_kinds_def)
  have n: "length table_attributes = 15"
    using arg_cong[OF table_kinds_eq, of length] by (simp add: table_kinds_def)
  have c: "map (\<lambda>c. length (sheet_names c)) [''competitor'', ''content'', ''followers'', ''visitors'']
        = [1, 2, 6, 6]"
    by (simp add: sheet_names_def category_keys_def)
  have k: "map fst category_keys = [''competitor'', ''content'', ''followers'', ''visitors'']"
    by (simp add: category_keys_def)
  have "concat (map sheet_names (map fst category_keys)) = last table_kinds # butlast table_kinds"
    unfolding k table_kinds_eq by (simp add: sheet_names_def category_keys_def)
  moreover have "set (last table_kinds # butlast table_kinds) = set (butlast table_kinds @ [last table_kinds])"
    by simp
  moreover have "table_kinds \<noteq> []" unfolding table_kinds_eq by simp
  ultimately have s: "set (concat (map sheet_names (map fst category_keys))) = set table_kinds"
    using append_butlast_last_id[of table_kinds] by metis
  have r: "table_attribute name = Inr attrs \<and> map_of translated_columns name = Some (map fst attrs)"
    if h: "(name, attrs) \<in> set table_attributes"
  proof
    show "table_attribute name = Inr attrs" by (rule table_attribute_registered[OF h])
    have "distinct (map fst translated_columns)"
      using d by (simp add: translated_columns_names comp_def case_prod_unfold)
    moreover have "(name, map fst attrs) \<in> set translated_columns"
      using h by (force simp: translated_columns_names)
    ultimately show "map_of translated_columns name = Some (map fst attrs)"
      by (rule map_of_is_SomeI)
  qed
  have u: "table_attribute name = Inl AttributeError \<and> translate_cols name d = Inl TypeError"
    if h: "name \<notin> set table_kinds"
  proof
    show "table_attribute name = Inl AttributeError" by (rule table_attribute_unregistered[OF h])
    have "name \<notin> fst ` set translated_columns"
      using h by (force simp: translated_columns_names table_kinds_def)
    then have "map_of translated_columns name = None" by (simp add: map_of_eq_None_iff)
    then show "translate_cols name d = Inl TypeError" by (simp add: translate_cols_def)
  qed
  from d n c k s r u show ?thesis by blast
qed

theorem schema_catalog_kinds_witness:
  "table_attribute ''followers_location'' = Inr [(''Location'', ''VARCHAR''), (''Total Followers'', ''INT'')]
   \<and> map_of translated_columns ''followers_location'' = Some [''Location'', ''Total Followers'']
   \<and> table_attribute ''content'' = Inl AttributeError
   \<and> translate_cols ''content'' \<lparr>columns = [''a''], rows = [[Null]]\<rparr> = Inl TypeError"
proof -
  have a: "(''followers_location'', [(''Location'', ''VARCHAR''), (''Total Followers'', ''INT'')])
             \<in> set table_attributes"
    by (simp add: table_attributes_def)
  have b: "''content'' \<notin> set table_kinds"
    unfolding table_kinds_eq by simp
  show ?thesis
    using a b
      schema_catalog_kinds[of "''followers_location''"
        "[(''Location'', ''VARCHAR''), (''Total Followers'', ''INT'')]"]
      schema_catalog_kinds[of "''content''" _ "\<lparr>columns = [''a''], rows = [[Null]]\<rparr>"]
    by simp
qed

text \<open>The claim as stated asks for 16 kinds; both catalogs hold 15.\<close>

theorem schema_catalog_counterexample:
  "length table_attributes = 15 \<and> length translated_columns = 15
   \<and> length table_attributes \<noteq> 16 \<and> length translated_columns \<noteq> 16"
  by (simp add: table_attributes_def translated_columns_def)

section \<open>Period resolver facts\<close>





































text \<open>
  The claim as stated names one failure, InvalidPeriod, for every unrecognized month
  token. The code raises two different built-in exceptions, depending on the token.
\<close>

theorem extraction_range_counterexample:
  "extraction_range ''2024'' ''Feb'' 1 = Inl KeyError
   \<and> extraction_range ''2024'' ''Ja-n'' 1 = Inl ValueError
   \<and> extraction_range_duck ''2024'' ''Feb'' 1 = Inl KeyError
   \<and> extraction_range_duck ''2024'' ''Ja-n'' 1 = Inl KeyError"
  by code_simp

section \<open>Aggregator facts\<close>

subsection \<open>The grouping loop\<close>

lemma dict_update_keys: "map fst (dict_update f k d) = map fst d"
  by (induction d) (auto simp: dict_update_def)

lemma map_of_dict_update:
  "map_of (dict_update f k d) k' = (if k' = k then map_option f (map_of d k) else map_of d k')"
  by (induction d) (auto simp: dict_update_def)

lemma map_of_snoc_new:
  "k \<notin> fst ` set d \<Longrightarrow> map_of (d @ [(k, v)]) k' = (if k' = k then Some v else map_of d k')"
  by (induction d) auto

lemma group_into_keys:
  "set (map fst (group_into key init add xs d)) = set (map fst d) \<union> key ` set xs"
proof (induction xs arbitrary: d)
  case Nil
  then show ?case by simp
next
  case (Cons x xs)
  show ?case
    by (simp only: group_into.simps Cons.IH dict_update_keys) auto
qed

lemma group_into_distinct:
  "distinct (map fst d) \<Longrightarrow> distinct (map fst (group_into key init add xs d))"
proof (induction xs arbitrary: d)
  case Nil
  then show ?case by simp
next
  case (Cons x xs)
  have "distinct (map fst (dict_update (add x) (key x)
          (if key x \<in> fst ` set d then d else d @ [(key x, init x)])))"
    using Cons.prems by (simp add: dict_update_keys)
  then show ?case by (simp only: group_into.simps Cons.IH)
qed

lemma group_into_members:
  assumes i: "\<And>x. mem (init x) = []" and a: "\<And>x g. mem (add x g) = mem g @ [item x]"
  shows "map_of (group_into key init add xs d) k = Some g \<Longrightarrow> distinct (map fst d) \<Longrightarrow>
     mem g = (case map_of d k of Some g0 \<Rightarrow> mem g0 | None \<Rightarrow> [])
              @ map item (filter (\<lambda>x. key x = k) xs)"
proof (induction xs arbitrary: d)
  case Nil
  then show ?case by simp
next
  case (Cons x xs)
  let ?d1 = "if key x \<in> fst ` set d then d else d @ [(key x, init x)]"
  let ?d2 = "dict_update (add x) (key x) ?d1"
  have d2: "distinct (map fst ?d2)" using Cons.prems(2) by (simp add: dict_update_keys)
  have r: "map_of (group_into key init add xs ?d2) k = Some g"
    using Cons.prems(1) by (simp only: group_into.simps)
  have ih: "mem g = (case map_of ?d2 k of Some g0 \<Rightarrow> mem g0 | None \<Rightarrow> [])
              @ map item (filter (\<lambda>x. key x = k) xs)"
    by (rule Cons.IH[OF r d2])
  have step: "(case map_of ?d2 k of Some g0 \<Rightarrow> mem g0 | None \<Rightarrow> [])
     = (case map_of d k of Some g0 \<Rightarrow> mem g0 | None \<Rightarrow> []) @ map item (filter (\<lambda>x. key x = k) [x])"
  proof (cases "key x = k")
    case True
    show ?thesis
    proof (cases "key x \<in> fst ` set d")
      case t: True
      then obtain g0 where "map_of d k = Some g0"
        using True by (metis domD dom_map_of_conv_image_fst)
      then show ?thesis using True t by (simp add: map_of_dict_update a)
    next
      case f: False
      then have "map_of d k = None" using True by (simp add: map_of_eq_None_iff)
      then show ?thesis using True f by (simp add: map_of_dict_update map_of_snoc_new a i del: map_of_append)
    qed
  next
    case False
    then have "map_of ?d2 k = map_of d k"
      by (simp add: map_of_dict_update map_of_snoc_new del: map_of_append)
    then show ?thesis using False by simp
  qed
  show ?case unfolding ih step by simp
qed

lemma group_into_lookup:
  assumes i: "\<And>x. mem (init x) = []" and a: "\<And>x g. mem (add x g) = mem g @ [item x]"
    and k: "k \<in> key ` set xs"
  shows "\<exists>g. map_of (group_into key init add xs []) k = Some g
            \<and> mem g = map item (filter (\<lambda>x. key x = k) xs)"
proof -
  have "k \<in> set (map fst (group_into key init add xs []))"
    using k by (simp only: group_into_keys) simp
  then obtain g where g: "map_of (group_into key init add xs []) k = Some g"
    by (metis domD dom_map_of_conv_image_fst set_map)
  have "mem g = map item (filter (\<lambda>x. key x = k) xs)"
    using group_into_members[OF i a g] by simp
  then show ?thesis using g by blast
qed



lemma pd_concat_ok:
  assumes "fs \<noteq> []" "\<forall>f\<in>set fs. distinct (columns f)"
  shows "\<exists>c. pd_concat fs = Inr c \<and> length (rows c) = sum_list (map (\<lambda>f. length (rows f)) fs)"
proof -
  have l: "length (concat (map g fs)) = sum_list (map (\<lambda>f. length (rows f)) fs)"
    if "\<And>f. length (g f) = length (rows f)" for g :: "frame \<Rightarrow> cell list list"
    using that by (simp add: length_concat comp_def)
  have n: "\<not> list_ex (\<lambda>f. \<not> distinct (columns f)) fs"
    using assms(2) by (simp add: list_ex_iff)
  show ?thesis
    using assms(1) n l[of rows] l[of "\<lambda>f. map (reindex_row c (columns f)) (rows f)" for c]
    by (simp add: pd_concat_def Let_def)
qed

lemma concat_groups_ok:
  "(\<forall>(k, g)\<in>set gs. \<exists>c. pd_concat (dfs g) = Inr c) \<Longrightarrow> \<exists>r. concat_groups gs = Inr r"
  by (induction gs) auto

lemma concat_groups_lookup:
  "concat_groups gs = Inr r \<Longrightarrow> map_of gs k = Some g \<Longrightarrow>
     \<exists>c. pd_concat (dfs g) = Inr c \<and>
         map_of r k = Some \<lparr>category = category g, export_dir = export_dir g, dfs = dfs g,
                            concatenated_df = c\<rparr>"
proof (induction gs arbitrary: r)
  case Nil
  then show ?case by simp
next
  case (Cons a gs)
  obtain k' g' where a: "a = (k', g')" by (cases a)
  from Cons.prems(1) obtain c r' where
    c: "pd_concat (dfs g') = Inr c" and r': "concat_groups gs = Inr r'"
    and r: "r = (k', \<lparr>category = category g', export_dir = export_dir g', dfs = dfs g',
                       concatenated_df = c\<rparr>) # r'"
    unfolding a by (auto split: sum.splits)
  show ?case
  proof (cases "k = k'")
    case True
    then have "g = g'" using Cons.prems(2) a by simp
    then show ?thesis using c r True by simp
  next
    case False
    then have "map_of gs k = Some g" using Cons.prems(2) a by simp
    from Cons.IH[OF r' this] show ?thesis using r False by simp
  qed
qed


lemma grouped_concat:
  fixes init :: "'a \<Rightarrow> grouped" and item :: "'a \<Rightarrow> frame"
  assumes i: "\<And>x. dfs (init x) = []" and a: "\<And>x g. dfs (add x g) = dfs g @ [item x]"
    and dist: "\<forall>x\<in>set xs. distinct (columns (item x))" and k: "k \<in> key ` set xs"
  shows "\<exists>r g. concat_groups (group_into key init add xs []) = Inr r \<and> map_of r k = Some g
           \<and> dfs g = map item (filter (\<lambda>x. key x = k) xs)
           \<and> pd_concat (dfs g) = Inr (concatenated_df g)"
proof -
  let ?gs = "group_into key init add xs []"
  have dk: "distinct (map fst ?gs)" by (rule group_into_distinct) simp
  have all: "\<forall>(k', g')\<in>set ?gs. \<exists>c. pd_concat (dfs g') = Inr c"
  proof (clarify)
    fix k' g' assume in_gs: "(k', g') \<in> set ?gs"
    then have m: "map_of ?gs k' = Some g'" using dk by (simp add: map_of_is_SomeI)
    have "k' \<in> set (map fst ?gs)" using in_gs by force
    then have k': "k' \<in> key ` set xs" by (simp only: group_into_keys) simp
    have d: "dfs g' = map item (filter (\<lambda>x. key x = k') xs)"
      using group_into_members[of dfs init add item key xs "[]" k' g', OF i a m] by simp
    have ne: "dfs g' \<noteq> []" using k' unfolding d by (auto simp: filter_empty_conv)
    have "\<forall>f\<in>set (dfs g'). distinct (columns f)" using dist unfolding d by auto
    from pd_concat_ok[OF ne this] show "\<exists>c. pd_concat (dfs g') = Inr c" by blast
  qed
  from concat_groups_ok[OF all] obtain r where r: "concat_groups ?gs = Inr r" ..
  from group_into_lookup[of dfs init add item k key xs, OF i a k] obtain g0 where
    g0: "map_of ?gs k = Some g0" and d0: "dfs g0 = map item (filter (\<lambda>x. key x = k) xs)"
    by blast
  from concat_groups_lookup[OF r g0] obtain c where
    c: "pd_concat (dfs g0) = Inr c"
    and m: "map_of r k = Some \<lparr>category = category g0, export_dir = export_dir g0,
                                dfs = dfs g0, concatenated_df = c\<rparr>"
    by blast
  show ?thesis using r m c d0 by auto
qed


lemma category_dataframes_group:
  assumes "\<forall>m\<in>set (map snd data). distinct (columns (concatenated_df m))"
    "c \<in> category ` set (map snd data)"
  shows "\<exists>r g. concatenate_category_dataframes cd data = Inr r \<and> map_of r c = Some g
           \<and> dfs g = map concatenated_df (filter (\<lambda>m. category m = c) (map snd data))
           \<and> pd_concat (dfs g) = Inr (concatenated_df g)"
  unfolding concatenate_category_dataframes_def
  using assms by (intro grouped_concat) simp_all

subsection \<open>Unions in the database\<close>

lemma union_onto_cong:
  "(\<forall>n\<in>set ns. con1 n = con n) \<Longrightarrow> union_onto con1 acc ns = union_onto con acc ns"
  by (induction ns arbitrary: acc) (simp_all add: select_all_def split: option.splits)

lemma union_all_cong:
  "(\<forall>n\<in>set ns. con1 n = con n) \<Longrightarrow> union_all con1 ns = union_all con ns"
  by (cases ns) (simp_all add: union_all_def select_all_def union_onto_cong split: option.splits)

lemma union_onto_rows:
  "map con ns = map Some fs \<Longrightarrow> \<forall>f\<in>set fs. length (columns f) = length (columns acc) \<Longrightarrow>
   union_onto con acc ns = Inr \<lparr>columns = columns acc, rows = rows acc @ concat (map rows fs)\<rparr>"
proof (induction ns arbitrary: acc fs)
  case Nil
  then show ?case by simp
next
  case (Cons n ns)
  then obtain f fs' where fs: "fs = f # fs'" by (cases fs) auto
  have n: "con n = Some f" and r: "map con ns = map Some fs'" using Cons.prems(1) fs by auto
  have l: "length (columns f) = length (columns acc)" using Cons.prems(2) fs by simp
  let ?acc = "\<lparr>columns = columns acc, rows = rows acc @ rows f\<rparr>"
  have "\<forall>f\<in>set fs'. length (columns f) = length (columns ?acc)" using Cons.prems(2) fs by simp
  from Cons.IH[OF r this] show ?case using n l fs by (simp add: select_all_def)
qed

lemma union_all_rows:
  assumes "map con ns = map Some fs" "fs \<noteq> []"
    "\<forall>f\<in>set fs. length (columns f) = length (columns (hd fs))"
  shows "union_all con ns = Inr \<lparr>columns = columns (hd fs), rows = concat (map rows fs)\<rparr>"
proof -
  obtain f fs' where fs: "fs = f # fs'" using assms(2) by (cases fs) auto
  then obtain n ns' where ns: "ns = n # ns'" using assms(1) by (cases ns) auto
  have n: "con n = Some f" and r: "map con ns' = map Some fs'" using assms(1) fs ns by auto
  have "\<forall>g\<in>set fs'. length (columns g) = length (columns f)" using assms(3) fs by simp
  from union_onto_rows[OF r this] show ?thesis using n fs ns
    by (simp add: union_all_def select_all_def)
qed

lemma union_all_two:
  assumes "con a = Some fa" "con b = Some fb"
  shows "union_all con [a, b] =
     (if length (columns fa) \<noteq> length (columns fb) then Inl BinderError
      else Inr \<lparr>columns = columns fa, rows = rows fa @ rows fb\<rparr>)"
  using assms by (simp add: union_all_def select_all_def)

lemma month_group_ok_cong:
  "(\<forall>n\<in>set (take 2 (tables g)). con1 n = con n) \<Longrightarrow> month_group_ok con1 g = month_group_ok con g"
  by (cases "tables g" rule: list.exhaust; cases "tl (tables g)")
     (auto simp: month_group_ok_def numeral_2_eq_2 split: option.splits)



lemma month_group_ok_union:
  assumes "month_group_ok con g"
  shows "\<exists>a b more fa fb. tables g = a # b # more \<and> con a = Some fa \<and> con b = Some fb
           \<and> union_all con [a, b] = Inr \<lparr>columns = columns fa, rows = rows fa @ rows fb\<rparr>"
proof -
  from assms obtain a b more where t: "tables g = a # b # more"
    by (auto simp: month_group_ok_def split: list.splits)
  with assms obtain fa fb where f: "con a = Some fa" "con b = Some fb"
    and l: "length (columns fa) = length (columns fb)"
    by (auto simp: month_group_ok_def split: option.splits)
  show ?thesis using t f l union_all_two[OF f] by auto
qed


lemma create_monthly_fails:
  assumes "p \<in> set md" "\<not> month_group_ok con (snd p)"
    "\<forall>p\<in>set md. set (take 2 (tables (snd p))) \<inter> fst ` set md = {}"
  shows "\<exists>e. create_monthly con md = Inl e"
  using assms
proof (induction md arbitrary: con)
  case Nil
  then show ?case by simp
next
  case (Cons x md)
  obtain k0 g0 where x: "x = (k0, g0)" by (cases x)
  have keys: "fst ` set (x # md) = insert k0 (fst ` set md)" using x by simp
  show ?case
  proof (cases "month_group_ok con g0")
    case False
    then show ?thesis unfolding x
      by (auto simp: month_group_ok_def union_all_def select_all_def
          split: list.splits option.splits sum.splits)
  next
    case True
    then have "p \<noteq> x" using Cons.prems(2) x by auto
    then have m: "p \<in> set md" using Cons.prems(1) by simp
    from month_group_ok_union[OF True] obtain a b more fa fb where
      t: "tables g0 = a # b # more" and ca: "con a = Some fa" and cb: "con b = Some fb"
      and u: "union_all con [a, b] = Inr \<lparr>columns = columns fa, rows = rows fa @ rows fb\<rparr>"
      by blast
    define f where "f = \<lparr>columns = columns fa, rows = rows fa @ rows fb\<rparr>"
    define con1 where "con1 = con(k0 \<mapsto> f)"
    have u': "union_all con [a, b] = Inr f" using u by (simp add: f_def)
    have con1_other: "\<And>n. n \<noteq> k0 \<Longrightarrow> con1 n = con n" by (simp add: con1_def)
    have disj: "set (take 2 (tables (snd q))) \<inter> insert k0 (fst ` set md) = {}"
      if "q \<in> set md" for q
      using Cons.prems(3) that unfolding keys by simp
    have "\<forall>n\<in>set (take 2 (tables (snd p))). n \<noteq> k0" using disj[OF m] by blast
    then have "\<forall>n\<in>set (take 2 (tables (snd p))). con1 n = con n" using con1_other by blast
    then have bad: "\<not> month_group_ok con1 (snd p)"
      using month_group_ok_cong Cons.prems(2) by blast
    have "\<forall>q\<in>set md. set (take 2 (tables (snd q))) \<inter> fst ` set md = {}"
      using disj by blast
    from Cons.IH[OF m bad this] obtain e where "create_monthly con1 md = Inl e" ..
    then have "create_monthly con (x # md) = Inl e" using t u' by (simp add: x con1_def)
    then show ?thesis ..
  qed
qed


lemma category_group_ok_cong:
  assumes "\<forall>n\<in>set (tables_category g). con1 n = con n"
  shows "category_group_ok con1 g = category_group_ok con g"
proof (cases "tables_category g")
  case Nil
  then show ?thesis by (simp add: category_group_ok_def)
next
  case (Cons n ns)
  have h: "con1 n = con n" using assms Cons by simp
  have "list_all (\<lambda>m. case con1 m of None \<Rightarrow> False | Some h \<Rightarrow> length (columns h) = l) ns
      = list_all (\<lambda>m. case con m of None \<Rightarrow> False | Some h \<Rightarrow> length (columns h) = l) ns" for l
    using assms Cons by (auto simp: list_all_iff)
  then show ?thesis using Cons h by (simp add: category_group_ok_def split: option.splits)
qed

lemma list_all_frames:
  "list_all (\<lambda>m. case con m of None \<Rightarrow> False | Some h \<Rightarrow> length (columns h) = l) ns \<Longrightarrow>
   \<exists>fs. map con ns = map Some fs \<and> (\<forall>f\<in>set fs. length (columns f) = l)"
proof (induction ns)
  case Nil
  then show ?case by simp
next
  case (Cons n ns)
  then obtain h where h: "con n = Some h" "length (columns h) = l"
    by (auto split: option.splits)
  from Cons obtain fs where "map con ns = map Some fs" "\<forall>f\<in>set fs. length (columns f) = l"
    by auto
  then have "map con (n # ns) = map Some (h # fs) \<and> (\<forall>f\<in>set (h # fs). length (columns f) = l)"
    using h by simp
  then show ?case by blast
qed

lemma category_group_ok_union:
  assumes "category_group_ok con g"
  shows "\<exists>fs. map con (tables_category g) = map Some fs \<and> fs \<noteq> []
           \<and> (\<forall>f\<in>set fs. length (columns f) = length (columns (hd fs)))
           \<and> union_all con (tables_category g)
               = Inr \<lparr>columns = columns (hd fs), rows = concat (map rows fs)\<rparr>"
proof -
  from assms obtain n ns where t: "tables_category g = n # ns"
    by (auto simp: category_group_ok_def split: list.splits)
  with assms obtain f where f: "con n = Some f"
    and l: "list_all (\<lambda>m. case con m of None \<Rightarrow> False
                            | Some h \<Rightarrow> length (columns h) = length (columns f)) ns"
    by (auto simp: category_group_ok_def split: option.splits)
  from list_all_frames[OF l] obtain fs where
    fs: "map con ns = map Some fs" "\<forall>h\<in>set fs. length (columns h) = length (columns f)"
    by blast
  have a: "map con (tables_category g) = map Some (f # fs)" using t f fs by simp
  have b: "\<forall>h\<in>set (f # fs). length (columns h) = length (columns (hd (f # fs)))"
    using fs by simp
  have "union_all con (tables_category g)
      = Inr \<lparr>columns = columns (hd (f # fs)), rows = concat (map rows (f # fs))\<rparr>"
    by (rule union_all_rows[OF a _ b]) simp
  then show ?thesis using a b by blast
qed

lemma create_category_other:
  "create_category con gd = Inr con' \<Longrightarrow> n \<notin> fst ` set gd \<Longrightarrow> con' n = con n"
proof (induction gd arbitrary: con)
  case Nil
  then show ?case by simp
next
  case (Cons a gd)
  obtain k g where a: "a = (k, g)" by (cases a)
  from Cons.prems(1) obtain f where
    "union_all con (tables_category g) = Inr f"
    and r: "create_category (con(k \<mapsto> f)) gd = Inr con'"
    unfolding a by (auto split: sum.splits)
  have "n \<notin> fst ` set gd" "n \<noteq> k" using Cons.prems(2) a by auto
  with Cons.IH[OF r] show ?case by simp
qed

lemma create_category_ok:
  assumes "distinct (map fst gd)"
    "\<forall>p\<in>set gd. category_group_ok con (snd p)"
    "\<forall>p\<in>set gd. set (tables_category (snd p)) \<inter> fst ` set gd = {}"
  shows "\<exists>con'. create_category con gd = Inr con'
           \<and> (\<forall>p\<in>set gd. \<exists>f. union_all con (tables_category (snd p)) = Inr f
                                \<and> con' (fst p) = Some f)"
  using assms
proof (induction gd arbitrary: con)
  case Nil
  then show ?case by simp
next
  case (Cons x gd)
  obtain k g where x: "x = (k, g)" by (cases x)
  have ok: "category_group_ok con g" using Cons.prems(2) x by simp
  from category_group_ok_union[OF ok] obtain f where
    u: "union_all con (tables_category g) = Inr f"
    by blast
  define con1 where "con1 = con(k \<mapsto> f)"
  have con1_k: "con1 k = Some f" and con1_other: "\<And>n. n \<noteq> k \<Longrightarrow> con1 n = con n"
    by (simp_all add: con1_def)
  have keys: "fst ` set (x # gd) = insert k (fst ` set gd)" using x by simp
  have disj: "set (tables_category (snd p)) \<inter> insert k (fst ` set gd) = {}"
    if "p \<in> set gd" for p
    using Cons.prems(3) that unfolding keys by simp
  have same: "\<forall>n\<in>set (tables_category (snd p)). con1 n = con n" if m: "p \<in> set gd" for p
  proof
    fix n assume "n \<in> set (tables_category (snd p))"
    then have "n \<noteq> k" using disj[OF m] by blast
    then show "con1 n = con n" by (rule con1_other)
  qed
  have d: "distinct (map fst gd)" and kn: "k \<notin> fst ` set gd" using Cons.prems(1) x by auto
  have ok1: "\<forall>p\<in>set gd. category_group_ok con1 (snd p)"
  proof
    fix p assume m: "p \<in> set gd"
    then have "category_group_ok con (snd p)" using Cons.prems(2) by simp
    then show "category_group_ok con1 (snd p)" using category_group_ok_cong[OF same[OF m]] by blast
  qed
  have dj1: "\<forall>p\<in>set gd. set (tables_category (snd p)) \<inter> fst ` set gd = {}"
    using disj by blast
  from Cons.IH[OF d ok1 dj1] obtain con' where
    c: "create_category con1 gd = Inr con'"
    and r: "\<forall>p\<in>set gd. \<exists>f. union_all con1 (tables_category (snd p)) = Inr f \<and> con' (fst p) = Some f"
    by blast
  have head: "create_category con (x # gd) = Inr con'"
    using u c by (simp add: x con1_def)
  have hk: "con' k = Some f" using create_category_other[OF c kn] con1_k by simp
  have rest: "\<exists>f. union_all con (tables_category (snd p)) = Inr f \<and> con' (fst p) = Some f"
    if m: "p \<in> set gd" for p
  proof -
    from r m obtain f' where "union_all con1 (tables_category (snd p)) = Inr f'"
      "con' (fst p) = Some f'"
      by blast
    then show ?thesis using union_all_cong[OF same[OF m]] by auto
  qed
  have "\<forall>p\<in>set (x # gd). \<exists>f. union_all con (tables_category (snd p)) = Inr f
            \<and> con' (fst p) = Some f"
    using hk u rest x by auto
  then show ?case using head by blast
qed

lemma union_onto_fails:
  "\<not> list_all (\<lambda>m. case con m of None \<Rightarrow> False | Some h \<Rightarrow> length (columns h) = l) ns \<Longrightarrow>
   length (columns acc) = l \<Longrightarrow> \<exists>e. union_onto con acc ns = Inl e"
proof (induction ns arbitrary: acc)
  case Nil
  then show ?case by simp
next
  case (Cons m ms)
  show ?case
  proof (cases "con m")
    case None
    then show ?thesis by (simp add: select_all_def)
  next
    case (Some h)
    show ?thesis
    proof (cases "length (columns h) = l")
      case True
      have a: "\<not> list_all (\<lambda>m. case con m of None \<Rightarrow> False
                 | Some h \<Rightarrow> length (columns h) = l) ms"
        using Cons.prems(1) Some True by simp
      have b: "length (columns \<lparr>columns = columns acc, rows = rows acc @ rows h\<rparr>) = l"
        using Cons.prems(2) by simp
      from Cons.IH[OF a b] show ?thesis using Some True Cons.prems(2) by (simp add: select_all_def)
    next
      case False
      then show ?thesis using Some Cons.prems(2) by (simp add: select_all_def)
    qed
  qed
qed

lemma create_category_fails:
  assumes "p \<in> set gd" "\<not> category_group_ok con (snd p)"
    "\<forall>p\<in>set gd. set (tables_category (snd p)) \<inter> fst ` set gd = {}"
  shows "\<exists>e. create_category con gd = Inl e"
  using assms
proof (induction gd arbitrary: con)
  case Nil
  then show ?case by simp
next
  case (Cons x gd)
  obtain k0 g0 where x: "x = (k0, g0)" by (cases x)
  have keys: "fst ` set (x # gd) = insert k0 (fst ` set gd)" using x by simp
  show ?case
  proof (cases "union_all con (tables_category g0)")
    case (Inl e)
    then show ?thesis unfolding x by simp
  next
    case (Inr f)
    define con1 where "con1 = con(k0 \<mapsto> f)"
    have con1_other: "\<And>n. n \<noteq> k0 \<Longrightarrow> con1 n = con n" by (simp add: con1_def)
    have disj: "set (tables_category (snd q)) \<inter> insert k0 (fst ` set gd) = {}"
      if "q \<in> set gd" for q
      using Cons.prems(3) that unfolding keys by simp
    show ?thesis
    proof (cases "p = x")
      case True
      then have bad: "\<not> category_group_ok con g0" using Cons.prems(2) x by simp
      have "\<exists>e. union_all con (tables_category g0) = Inl e"
      proof (cases "tables_category g0")
        case Nil
        then show ?thesis by (simp add: union_all_def)
      next
        case (Cons n ns)
        show ?thesis
        proof (cases "con n")
          case None
          then show ?thesis using Cons by (simp add: union_all_def select_all_def)
        next
          case (Some h)
          have "\<exists>e. union_onto con h ns = Inl e"
            by (rule union_onto_fails[where l = "length (columns h)"])
               (use bad Cons Some in \<open>simp_all add: category_group_ok_def\<close>)
          then show ?thesis using bad Cons Some
            by (simp add: category_group_ok_def union_all_def select_all_def)
        qed
      qed
      then show ?thesis using Inr by simp
    next
      case False
      then have m: "p \<in> set gd" using Cons.prems(1) by simp
      have "\<forall>n\<in>set (tables_category (snd p)). n \<noteq> k0" using disj[OF m] by blast
      then have "\<forall>n\<in>set (tables_category (snd p)). con1 n = con n" using con1_other by blast
      then have bad: "\<not> category_group_ok con1 (snd p)"
        using category_group_ok_cong Cons.prems(2) by blast
      have "\<forall>q\<in>set gd. set (tables_category (snd q)) \<inter> fst ` set gd = {}"
        using disj by blast
      from Cons.IH[OF m bad this] obtain e where "create_category con1 gd = Inl e" ..
      then have "create_category con (x # gd) = Inl e" using Inr by (simp add: x con1_def)
      then show ?thesis ..
    qed
  qed
qed




lemma grouped_data_category_distinct: "distinct (map fst (grouped_data_category md))"
  unfolding grouped_data_category_def by (rule group_into_distinct) simp

lemma grouped_data_category_tables:
  assumes "(c, g) \<in> set (grouped_data_category md)"
  shows "tables_category g = map fst (filter (\<lambda>(k, m). category_duck m = c) md)"
proof -
  have m: "map_of (grouped_data_category md) c = Some g"
    using assms grouped_data_category_distinct by (simp add: map_of_is_SomeI)
  show ?thesis
    using group_into_members[where mem = "tables_category :: grouped_category_duck \<Rightarrow> _"
          and item = "fst :: string \<times> grouped_duck \<Rightarrow> _",
          OF _ _ m[unfolded grouped_data_category_def]]
    by (simp add: case_prod_unfold)
qed

lemma grouped_data_category_key:
  assumes "(k, m) \<in> set md"
  shows "\<exists>g. (category_duck m, g) \<in> set (grouped_data_category md)"
proof -
  have "category_duck m \<in> (\<lambda>(k, g). category_duck g) ` set md" using assms by force
  then have "category_duck m \<in> set (map fst (grouped_data_category md))"
    unfolding grouped_data_category_def by (simp only: group_into_keys) simp
  then show ?thesis by auto
qed

lemma month_names_free_iff:
  "month_names_free ts \<longleftrightarrow>
     (\<forall>p\<in>set (monthly_data ts). set (take 2 (tables (snd p))) \<inter> fst ` set (monthly_data ts) = {})"
  by (auto simp: month_names_free_def list_all_iff case_prod_unfold)

lemma category_names_free_iff:
  "category_names_free md \<longleftrightarrow>
     (\<forall>p\<in>set (grouped_data_category md).
        set (tables_category (snd p)) \<inter> fst ` set (grouped_data_category md) = {})"
  by (auto simp: category_names_free_def list_all_iff case_prod_unfold)


lemma monthly_tables_fail:
  assumes "month_names_free ts" "(k, g) \<in> set (monthly_data ts)" "\<not> month_group_ok con g"
  shows "\<exists>e. concatenate_monthly_tables con ts = Inl e"
proof -
  have fr: "\<forall>p\<in>set (monthly_data ts).
      set (take 2 (tables (snd p))) \<inter> fst ` set (monthly_data ts) = {}"
    using assms(1) by (simp add: month_names_free_iff)
  have "\<not> month_group_ok con (snd (k, g))" using assms(3) by simp
  from create_monthly_fails[OF assms(2) this fr] obtain e where
    "create_monthly con (monthly_data ts) = Inl e" ..
  then show ?thesis by (simp add: concatenate_monthly_tables_def)
qed

lemma category_tables_ok:
  assumes "categories_complete con md"
  shows "\<exists>con'. concatenate_category_tables con md = Inr (con', grouped_data_category md)
           \<and> (\<forall>p\<in>set (grouped_data_category md).
                 \<exists>f. union_all con (tables_category (snd p)) = Inr f \<and> con' (fst p) = Some f)"
proof -
  have ok: "\<forall>p\<in>set (grouped_data_category md). category_group_ok con (snd p)"
    using assms by (auto simp: categories_complete_def list_all_iff)
  have fr: "\<forall>p\<in>set (grouped_data_category md).
      set (tables_category (snd p)) \<inter> fst ` set (grouped_data_category md) = {}"
    using assms by (simp add: categories_complete_def category_names_free_iff)
  from create_category_ok[OF grouped_data_category_distinct ok fr] show ?thesis
    by (auto simp: concatenate_category_tables_def)
qed

lemma category_tables_fail:
  assumes "category_names_free md" "(c, g) \<in> set (grouped_data_category md)"
    "\<not> category_group_ok con g"
  shows "\<exists>e. concatenate_category_tables con md = Inl e"
proof -
  have fr: "\<forall>p\<in>set (grouped_data_category md).
      set (tables_category (snd p)) \<inter> fst ` set (grouped_data_category md) = {}"
    using assms(1) by (simp add: category_names_free_iff)
  have "\<not> category_group_ok con (snd (c, g))" using assms(3) by simp
  from create_category_fails[OF assms(2) this fr] obtain e where
    "create_category con (grouped_data_category md) = Inl e" ..
  then show ?thesis by (simp add: concatenate_category_tables_def)
qed



end
